theory Spec2Isabelle
  imports Complex_Main
begin

section \<open>JavaScript values used by the application\<close>

text \<open>
  A JavaScript string is modelled as a \<open>string\<close>: one \<open>char\<close> per UTF-16 code unit,
  for the code units 0 to 255.  Every string literal of the sources and every input of the
  statements below lies in that range.
\<close>

text \<open>
  The result of \<open>parseFloat\<close>.  \<open>Finite neg q\<close> carries the sign and the exact
  mathematical value \<open>q \<ge> 0\<close> of the decimal literal that was read; the run-time Number is the
  binary64 value nearest to it, the same rounding that a numeric literal of the program text
  undergoes, so two literals with the same mathematical value are the same Number.  A
  literal beyond the range of binary64, which the run time reads as an infinity or as zero,
  is not followed that far.
\<close>

datatype jsnumber = NaN | Infinity bool | Finite bool rat

definition isStrWhiteSpaceChar :: "char \<Rightarrow> bool" where
  "isStrWhiteSpaceChar c \<longleftrightarrow>
     c \<in> set [CHR 0x09, CHR 0x0A, CHR 0x0B, CHR 0x0C, CHR 0x0D, CHR 0x20, CHR 0xA0]"

definition isDecimalDigit :: "char \<Rightarrow> bool" where
  "isDecimalDigit c \<longleftrightarrow> c \<in> set ''0123456789''"

definition digitValue :: "char \<Rightarrow> nat" where
  "digitValue c = of_char c - 48"

text \<open>The value of a run of decimal digits, most significant digit first.\<close>

definition digitsValue :: "string \<Rightarrow> nat" where
  "digitsValue ds = foldl (\<lambda>acc c. 10 * acc + digitValue c) 0 ds"

text \<open>
  The optional \<open>ExponentPart\<close> of a \<open>StrDecimalLiteral\<close>: \<open>e\<close> or \<open>E\<close>, an optional sign
  and at least one digit.  Without a digit there is no exponent part and the literal ends
  before the \<open>e\<close>.
\<close>

definition exponentPart :: "string \<Rightarrow> int" where
  "exponentPart s =
     (case s of
        [] \<Rightarrow> 0
      | c # r \<Rightarrow>
          if c = CHR ''e'' \<or> c = CHR ''E'' then
            (case r of
               [] \<Rightarrow> 0
             | d # r' \<Rightarrow>
                 if d = CHR ''-'' then - int (digitsValue (takeWhile isDecimalDigit r'))
                 else if d = CHR ''+'' then int (digitsValue (takeWhile isDecimalDigit r'))
                 else int (digitsValue (takeWhile isDecimalDigit r)))
          else 0)"

definition scale10 :: "rat \<Rightarrow> int \<Rightarrow> rat" where
  "scale10 q e = (if 0 \<le> e then q * 10 ^ nat e else q / 10 ^ nat (- e))"

text \<open>
  \<open>parseFloat\<close> of ECMAScript: leading white space is dropped, then the longest prefix that
  is a \<open>StrDecimalLiteral\<close> is read (sign, \<open>Infinity\<close>, or digits with an optional fraction and
  exponent); whatever follows is ignored, and \<open>NaN\<close> is returned when no prefix is a literal.
\<close>

definition parseFloat :: "string \<Rightarrow> jsnumber" where
  "parseFloat inputString =
     (let trimmed = dropWhile isStrWhiteSpaceChar inputString;
          neg = (case trimmed of [] \<Rightarrow> False | c # _ \<Rightarrow> c = CHR ''-'');
          u = (case trimmed of
                 [] \<Rightarrow> []
               | c # r \<Rightarrow> if c = CHR ''-'' \<or> c = CHR ''+'' then r else trimmed)
      in if take 8 u = ''Infinity'' then Infinity neg
         else
           let ip = takeWhile isDecimalDigit u;
               r1 = dropWhile isDecimalDigit u;
               dot = (case r1 of [] \<Rightarrow> False | c # _ \<Rightarrow> c = CHR ''.'');
               fp = (if dot then takeWhile isDecimalDigit (tl r1) else []);
               r2 = (if dot then dropWhile isDecimalDigit (tl r1) else r1)
           in if ip = [] \<and> fp = [] then NaN
              else Finite neg
                (scale10 (of_nat (digitsValue ip)
                          + of_nat (digitsValue fp) / 10 ^ length fp)
                   (exponentPart r2)))"

text \<open>\<open>s.replace(/\./g, '')\<close>: every occurrence of the character is removed.\<close>

definition removeAll_char :: "char \<Rightarrow> string \<Rightarrow> string" where
  "removeAll_char c s = filter (\<lambda>x. x \<noteq> c) s"

text \<open>\<open>s.replace(',', '.')\<close> with a string pattern: only the first occurrence is replaced.\<close>

fun replaceFirst :: "char \<Rightarrow> char \<Rightarrow> string \<Rightarrow> string" where
  "replaceFirst a b [] = []"
| "replaceFirst a b (x # xs) = (if x = a then b # xs else x # replaceFirst a b xs)"

section \<open>The journal row\<close>

record StatementRow =
  date :: string
  compteGeneral :: string
  compteTier :: string
  libelle :: string
  debit :: string
  credit :: string

section \<open>Spreadsheet export\<close>

datatype cellvalue = VNull | VString string | VNumber jsnumber

record cell =
  cell_t :: string
  cell_v :: cellvalue
  cell_z :: "string option"

text \<open>A cell address is the pair (column, row), both counted from 0: E2 is \<open>(4, 1)\<close>.\<close>

type_synonym cell_address = "nat \<times> nat"

record worksheet =
  cells :: "cell_address \<Rightarrow> cell option"
  ref_s :: cell_address
  ref_e :: cell_address
  cols :: "nat list option"

text \<open>
  \<open>row.debit ? parseFloat(row.debit.replace(/\./g, '').replace(',', '.')) : null\<close>:
  the empty string is falsy.
\<close>

definition amountCell :: "string \<Rightarrow> cellvalue" where
  "amountCell s =
     (if s \<noteq> [] then VNumber (parseFloat (replaceFirst CHR '','' CHR ''.'' (removeAll_char CHR ''.'' s)))
      else VNull)"

definition dataForExport :: "StatementRow \<Rightarrow> (string \<times> cellvalue) list" where
  "dataForExport row =
     [(''DATE'', VString (date row)),
      (''COMPTE GENERAL'', VString (compteGeneral row)),
      (''COMPTE TIER'', VString (compteTier row)),
      (''LIBELLE'', VString (libelle row)),
      (''DEBIT'', amountCell (debit row)),
      (''CREDIT'', amountCell (credit row))]"

subsection \<open>The SheetJS utilities the export calls\<close>

text \<open>
  \<open>XLSX.utils.json_to_sheet\<close>, \<open>book_new\<close>, \<open>book_append_sheet\<close> and \<open>writeFile\<close> belong to
  the SheetJS library, which the application imports.  They are modelled from the library:
  \<open>json_to_sheet\<close> visits the objects in order and, in each, the keys in insertion order; a
  key not seen before gets the next free column; the value becomes the cell of that column
  in the object's row (row 0 is the header): type \<open>n\<close> for a number, \<open>s\<close> for a string, and
  for \<open>null\<close> a stub cell of type \<open>z\<close> whose value is \<open>null\<close>.  The header cells are
  strings, and the range runs from A1 to the last column and row.
\<close>

definition cellOfValue :: "cellvalue \<Rightarrow> cell" where
  "cellOfValue x =
     (case x of
        VNumber _ \<Rightarrow> \<lparr>cell_t = ''n'', cell_v = x, cell_z = None\<rparr>
      | VString _ \<Rightarrow> \<lparr>cell_t = ''s'', cell_v = x, cell_z = None\<rparr>
      | VNull \<Rightarrow> \<lparr>cell_t = ''z'', cell_v = x, cell_z = None\<rparr>)"

text \<open>\<open>hdr.indexOf(k)\<close>, with \<open>None\<close> for -1.\<close>

fun indexOf :: "'a list \<Rightarrow> 'a \<Rightarrow> nat option" where
  "indexOf [] k = None"
| "indexOf (x # xs) k = (if x = k then Some 0 else map_option Suc (indexOf xs k))"

fun sheet_add_key ::
  "nat \<Rightarrow> string \<times> cellvalue \<Rightarrow> string list \<times> (cell_address \<Rightarrow> cell option)
     \<Rightarrow> string list \<times> (cell_address \<Rightarrow> cell option)" where
  "sheet_add_key R (k, x) (hdr, ws) =
     (case indexOf hdr k of
        Some C \<Rightarrow> (hdr, ws((C, R + 1) \<mapsto> cellOfValue x))
      | None \<Rightarrow> (hdr @ [k], ws((length hdr, R + 1) \<mapsto> cellOfValue x)))"

fun sheet_add_rows ::
  "nat \<Rightarrow> (string \<times> cellvalue) list list \<Rightarrow> string list \<times> (cell_address \<Rightarrow> cell option)
     \<Rightarrow> string list \<times> (cell_address \<Rightarrow> cell option)" where
  "sheet_add_rows R [] acc = acc"
| "sheet_add_rows R (JS # js) acc = sheet_add_rows (Suc R) js (fold (sheet_add_key R) JS acc)"

definition headerCell :: "string \<Rightarrow> cell" where
  "headerCell k = \<lparr>cell_t = ''s'', cell_v = VString k, cell_z = None\<rparr>"

definition json_to_sheet :: "(string \<times> cellvalue) list list \<Rightarrow> worksheet" where
  "json_to_sheet js =
     (let acc = sheet_add_rows 0 js ([], Map.empty);
          hdr = fst acc;
          ws = fold (\<lambda>C m. m((C, 0) \<mapsto> headerCell (hdr ! C))) [0..<length hdr] (snd acc)
      in \<lparr>cells = ws, ref_s = (0, 0), ref_e = (length hdr - 1, length js), cols = None\<rparr>)"

record workbook =
  SheetNames :: "string list"
  Sheets :: "(string \<times> worksheet) list"

definition book_new :: workbook where
  "book_new = \<lparr>SheetNames = [], Sheets = []\<rparr>"

definition book_append_sheet :: "workbook \<Rightarrow> worksheet \<Rightarrow> string \<Rightarrow> workbook" where
  "book_append_sheet wb ws name =
     wb\<lparr>SheetNames := SheetNames wb @ [name], Sheets := Sheets wb @ [(name, ws)]\<rparr>"

subsection \<open>\<open>handleDownloadExcel\<close>\<close>

definition columnWidths :: "nat list" where
  "columnWidths = [15, 20, 20, 80, 15, 15]"

text \<open>
  The body of the inner loop: a cell that exists and whose value is not \<open>null\<close> becomes
  numeric with the display format \<open>#,##0.00\<close>.
\<close>

definition setNumberFormat ::
  "cell_address \<Rightarrow> (cell_address \<Rightarrow> cell option) \<Rightarrow> (cell_address \<Rightarrow> cell option)" where
  "setNumberFormat a ws =
     (case ws a of
        None \<Rightarrow> ws
      | Some c \<Rightarrow>
          if cell_v c \<noteq> VNull then ws(a \<mapsto> c\<lparr>cell_t := ''n'', cell_z := Some ''#,##0.00''\<rparr>)
          else ws)"

text \<open>
  The addresses visited by \<open>for (R = range.s.r + 1; R <= range.e.r; ++R) for (C of [4, 5])\<close>,
  in the order of the visits.
\<close>

definition formatAddresses :: "worksheet \<Rightarrow> cell_address list" where
  "formatAddresses sheet =
     concat (map (\<lambda>R. map (\<lambda>C. (C, R)) [4, 5]) [Suc (snd (ref_s sheet))..<Suc (snd (ref_e sheet))])"

definition exportSheet :: "StatementRow list \<Rightarrow> worksheet" where
  "exportSheet rows =
     (let worksheet = json_to_sheet (map dataForExport rows);
          worksheet = worksheet\<lparr>cols := Some columnWidths\<rparr>
      in worksheet\<lparr>cells := fold setNumberFormat (formatAddresses worksheet) (cells worksheet)\<rparr>)"

text \<open>
  The result is the file that \<open>XLSX.writeFile\<close> saves, as its name and its workbook, and
  \<open>None\<close> when the handler returns at \<open>if (!data) return\<close>.
\<close>

definition handleDownloadExcel :: "StatementRow list option \<Rightarrow> (string \<times> workbook) option" where
  "handleDownloadExcel data =
     (case data of
        None \<Rightarrow> None
      | Some rows \<Rightarrow>
          Some (''cmi_statement_data.xlsx'',
                book_append_sheet book_new (exportSheet rows) ''CMI Statement''))"

subsection \<open>Notions used to describe the exported sheet\<close>

definition exportHeader :: "string list" where
  "exportHeader = [''DATE'', ''COMPTE GENERAL'', ''COMPTE TIER'', ''LIBELLE'', ''DEBIT'', ''CREDIT'']"

text \<open>The cell that \<open>json_to_sheet\<close> makes of column \<open>c\<close> of a row.\<close>

definition rowCell :: "StatementRow \<Rightarrow> nat \<Rightarrow> cell" where
  "rowCell row c = cellOfValue (snd (dataForExport row ! c))"

text \<open>What one visit of the formatting loop does to the content of an address.\<close>

definition formatted :: "cell option \<Rightarrow> cell option" where
  "formatted x =
     (case x of
        None \<Rightarrow> None
      | Some c \<Rightarrow>
          if cell_v c \<noteq> VNull then Some (c\<lparr>cell_t := ''n'', cell_z := Some ''#,##0.00''\<rparr>)
          else Some c)"

section \<open>Extraction client\<close>

text \<open>
  A thrown value: an instance of \<open>Error\<close> (also of a subclass such as \<open>SyntaxError\<close>) with
  its message, or anything else.
\<close>

datatype thrown = Error string | NonError

datatype json =
  JNull | JBool bool | JNumber rat | JString string
  | JArray "json list" | JObject "(string \<times> json) list"

text \<open>
  The request of \<open>ai.models.generateContent\<close>.  The instruction text and the response
  schema are the same constants in every request and are not carried here.
\<close>

record generateContentRequest =
  model :: string
  inlineData_data :: string
  inlineData_mimeType :: string
  responseMimeType :: string

text \<open>
  What the awaited call does: it rejects with a thrown value, or it yields a response whose
  \<open>text\<close> is a string, or one whose \<open>text\<close> is \<open>undefined\<close>.  In the last case
  \<open>response.text.trim()\<close> throws a \<open>TypeError\<close>, whose message, the engine's, is carried
  here.
\<close>

datatype api_outcome = Rejected thrown | Response string | ResponseWithoutText string

text \<open>\<open>String.prototype.trim\<close>: white space and line terminators go, at both ends.\<close>

definition trim :: "string \<Rightarrow> string" where
  "trim s = rev (dropWhile isStrWhiteSpaceChar (rev (dropWhile isStrWhiteSpaceChar s)))"

definition toLowerCase_char :: "char \<Rightarrow> char" where
  "toLowerCase_char c =
     (let n = (of_char c :: nat)
      in if (65 \<le> n \<and> n \<le> 90) \<or> (192 \<le> n \<and> n \<le> 222 \<and> n \<noteq> 215) then char_of (n + 32) else c)"

definition toLowerCase :: "string \<Rightarrow> string" where
  "toLowerCase s = map toLowerCase_char s"

text \<open>\<open>hay.includes(needle)\<close>: the needle occurs as a contiguous run of the string.\<close>

fun includes_str :: "string \<Rightarrow> string \<Rightarrow> bool" where
  "includes_str [] needle = (needle = [])"
| "includes_str (c # cs) needle = (take (length needle) (c # cs) = needle \<or> includes_str cs needle)"

definition fileToGenerativePart :: "string \<Rightarrow> string \<Rightarrow> string \<times> string" where
  "fileToGenerativePart base64 mimeType = (base64, mimeType)"

definition buildRequest :: "string \<Rightarrow> string \<Rightarrow> generateContentRequest" where
  "buildRequest fileBase64 fileType =
     (let filePart = fileToGenerativePart fileBase64 fileType
      in \<lparr>model = ''gemini-2.5-flash'',
          inlineData_data = fst filePart,
          inlineData_mimeType = snd filePart,
          responseMimeType = ''application/json''\<rparr>)"

text \<open>
  The body of the \<open>try\<close> block after the request has been answered.  \<open>JSON_parse\<close> is the
  run time's \<open>JSON.parse\<close>: the parsed value, or the message of the \<open>SyntaxError\<close> it throws
  (the wording of that message is the engine's).
\<close>

definition tryBlock :: "(string \<Rightarrow> string + json) \<Rightarrow> api_outcome \<Rightarrow> thrown + json" where
  "tryBlock JSON_parse outcome =
     (case outcome of
        Rejected e \<Rightarrow> Inl e
      | ResponseWithoutText message \<Rightarrow> Inl (Error message)
      | Response text \<Rightarrow>
          let jsonText = trim text
          in if jsonText = [] then
               Inl (Error ''The AI returned an empty response. The document might be unreadable or not a CMI statement.'')
             else (case JSON_parse jsonText of
                     Inl message \<Rightarrow> Inl (Error message)
                   | Inr extractedData \<Rightarrow> Inr extractedData))"

definition catchBlock :: "thrown \<Rightarrow> thrown" where
  "catchBlock error =
     (case error of
        Error message \<Rightarrow>
          if includes_str (toLowerCase message) ''json'' then
            Error ''The AI returned an invalid format. Please try a clearer image or a different file.''
          else Error (''An error occurred while processing the statement: '' @ message)
      | NonError \<Rightarrow> Error ''An unknown error occurred during AI processing.'')"

text \<open>
  \<open>extractDataFromFile\<close>.  The external model is \<open>generateContent\<close>, which answers a request
  given the requests sent before it; \<open>sent\<close> is the list of the requests sent so far, and
  the new list is returned with the result.  \<open>Inl\<close> is the value the function throws.  The
  cast \<open>as StatementRow[]\<close> does nothing at run time: the parsed value is returned as it is.
\<close>

definition extractDataFromFile ::
  "(generateContentRequest list \<Rightarrow> generateContentRequest \<Rightarrow> api_outcome)
     \<Rightarrow> (string \<Rightarrow> string + json) \<Rightarrow> string \<Rightarrow> string \<Rightarrow> generateContentRequest list
     \<Rightarrow> (thrown + json) \<times> generateContentRequest list" where
  "extractDataFromFile generateContent JSON_parse fileBase64 fileType sent =
     (let request = buildRequest fileBase64 fileType;
          response = generateContent sent request
      in (case tryBlock JSON_parse response of
            Inr extractedData \<Rightarrow> Inr extractedData
          | Inl error \<Rightarrow> Inl (catchBlock error),
          sent @ [request]))"

text \<open>
  The shape that the response schema of the request asks for: an array of objects in which
  each of the six required fields is a string.
\<close>

definition requiredFields :: "string list" where
  "requiredFields = [''date'', ''compteGeneral'', ''compteTier'', ''libelle'', ''debit'', ''credit'']"

definition isStatementRow :: "json \<Rightarrow> bool" where
  "isStatementRow x =
     (case x of
        JObject members \<Rightarrow>
          list_all (\<lambda>k. case map_of (rev members) k of Some (JString _) \<Rightarrow> True | _ \<Rightarrow> False)
            requiredFields
      | _ \<Rightarrow> False)"

definition isStatementRows :: "json \<Rightarrow> bool" where
  "isStatementRows x = (case x of JArray xs \<Rightarrow> list_all isStatementRow xs | _ \<Rightarrow> False)"

text \<open>
  The answers of V8's \<open>JSON.parse\<close> on the texts used in the examples below; every other
  text is answered as the empty text is.
\<close>

definition JSON_parse_examples :: "string \<Rightarrow> string + json" where
  "JSON_parse_examples s =
     (if s = ''5'' then Inr (JNumber 5)
      else if s = ''[{}]'' then Inr (JArray [JObject []])
      else if s = ''not json'' then Inl ''Unexpected token o in JSON at position 1''
      else Inl ''Unexpected end of JSON input'')"

section \<open>Application shell\<close>

text \<open>
  \<open>data\<close> holds whatever \<open>extractDataFromFile\<close> returned: the declared type
  \<open>StatementRow[]\<close> is not checked at run time, so the value is any parsed JSON value.
\<close>

record AppState =
  data :: "json option"
  loading :: bool
  error :: "string option"
  fileName :: "string option"
  isDragging :: bool

record File =
  file_name :: string
  file_type :: string

text \<open>
  What the \<open>FileReader\<close> does with the file: \<open>readAsDataURL\<close> throws, or the \<open>onerror\<close>
  callback runs, or the \<open>onload\<close> callback runs with \<open>reader.result\<close>.
\<close>

datatype read_outcome = ReadThrows thrown | Onerror | Onload string

text \<open>
  What the awaited call of \<open>extractDataFromFile\<close> does: it returns the parsed value, or it
  throws, or it never settles (the request has no timeout).
\<close>

datatype extraction = Returns json | Throws thrown | NeverSettles

text \<open>The observable effects of handling a file, in the order they happen.\<close>

datatype effect = ReadAsDataURL string | ExtractionCall "string option" string

text \<open>\<open>s.split(',')\<close>, and the element \<open>[i]\<close> of an array, \<open>undefined\<close> being \<open>None\<close>.\<close>

fun split_on :: "char \<Rightarrow> string \<Rightarrow> string list" where
  "split_on c [] = [[]]"
| "split_on c (x # xs) =
     (if x = c then [] # split_on c xs
      else (case split_on c xs of [] \<Rightarrow> [[x]] | h # t \<Rightarrow> (x # h) # t))"

definition element :: "'a list \<Rightarrow> nat \<Rightarrow> 'a option" where
  "element xs i = (if i < length xs then Some (xs ! i) else None)"

definition errorMessage :: "thrown \<Rightarrow> string \<Rightarrow> string" where
  "errorMessage err fallback = (case err of Error message \<Rightarrow> message | NonError \<Rightarrow> fallback)"

text \<open>
  The truth value of a parsed value in a condition: \<open>null\<close>, \<open>false\<close>, zero and the empty
  string are falsy, every array and object is truthy.
\<close>

definition truthy :: "json \<Rightarrow> bool" where
  "truthy x =
     (case x of
        JNull \<Rightarrow> False
      | JBool b \<Rightarrow> b
      | JNumber q \<Rightarrow> q \<noteq> 0
      | JString s \<Rightarrow> s \<noteq> []
      | JArray xs \<Rightarrow> True
      | JObject members \<Rightarrow> True)"

text \<open>
  \<open>extracted.length\<close> for a truthy value: the number of elements of an array, the number of
  code units of a string, the member \<open>length\<close> of an object if it has one (the last one
  written, as \<open>JSON.parse\<close> keeps it), and \<open>undefined\<close> for everything else.
\<close>

datatype property = Undefined | Count nat | Member json

definition lengthProperty :: "json \<Rightarrow> property" where
  "lengthProperty x =
     (case x of
        JString s \<Rightarrow> Count (length s)
      | JArray xs \<Rightarrow> Count (length xs)
      | JObject members \<Rightarrow>
          (case map_of (rev members) ''length'' of Some y \<Rightarrow> Member y | None \<Rightarrow> Undefined)
      | _ \<Rightarrow> Undefined)"

text \<open>
  \<open>extracted && extracted.length > 0\<close>.  \<open>undefined > 0\<close> is false.  For a member of an
  object, \<open>gtZero\<close> is the run time's \<open>y > 0\<close>: the value is first converted to a number, which
  gives a truth value or throws a \<open>TypeError\<close>.
\<close>

definition hasLength :: "(json \<Rightarrow> thrown + bool) \<Rightarrow> json \<Rightarrow> thrown + bool" where
  "hasLength gtZero extracted =
     (if truthy extracted then
        (case lengthProperty extracted of
           Undefined \<Rightarrow> Inr False
         | Count n \<Rightarrow> Inr (0 < n)
         | Member y \<Rightarrow> gtZero y)
      else Inr False)"

text \<open>
  The \<open>onload\<close> callback.  \<open>extract\<close> stands for the awaited call of the imported
  \<open>extractDataFromFile\<close>.  While that call has not settled nothing after it runs, and
  \<open>loading\<close> stays set; an exception of the test is caught like one of the call.
\<close>

definition reader_onload ::
  "(string option \<Rightarrow> string \<Rightarrow> extraction) \<Rightarrow> (json \<Rightarrow> thrown + bool) \<Rightarrow> File \<Rightarrow> string
     \<Rightarrow> AppState \<Rightarrow> AppState \<times> effect list" where
  "reader_onload extract gtZero file result st =
     (let base64 = element (split_on CHR '','' result) 1;
          st' = (case extract base64 (file_type file) of
                   Returns extracted \<Rightarrow>
                     (case hasLength gtZero extracted of
                        Inr True \<Rightarrow> st\<lparr>data := Some extracted, loading := False\<rparr>
                      | Inr False \<Rightarrow>
                          st\<lparr>error := Some ''No data could be extracted from the document. It might be empty or in an unsupported format.'',
                             loading := False\<rparr>
                      | Inl err \<Rightarrow>
                          st\<lparr>error := Some (errorMessage err ''An unexpected error occurred during processing.''),
                             loading := False\<rparr>)
                 | Throws err \<Rightarrow>
                     st\<lparr>error := Some (errorMessage err ''An unexpected error occurred during processing.''),
                        loading := False\<rparr>
                 | NeverSettles \<Rightarrow> st)
      in (st', [ExtractionCall base64 (file_type file)]))"

definition reader_onerror :: "AppState \<Rightarrow> AppState" where
  "reader_onerror st = st\<lparr>error := Some ''Failed to read the file. Please try again.'', loading := False\<rparr>"

text \<open>\<open>setData(null); setError(null); setLoading(true); setFileName(file.name)\<close>.\<close>

definition beginProcessing :: "File \<Rightarrow> AppState \<Rightarrow> AppState" where
  "beginProcessing file st = st\<lparr>data := None, error := None, loading := True, fileName := Some (file_name file)\<rparr>"

text \<open>
  The read and its callbacks, the same code in both versions of the shell; the state is the
  one the shell is in when the callback runs.
\<close>

definition completeProcessing ::
  "(string option \<Rightarrow> string \<Rightarrow> extraction) \<Rightarrow> (json \<Rightarrow> thrown + bool) \<Rightarrow> File \<Rightarrow> read_outcome
     \<Rightarrow> AppState \<Rightarrow> AppState \<times> effect list" where
  "completeProcessing extract gtZero file outcome st =
     (case outcome of
        ReadThrows err \<Rightarrow>
          (st\<lparr>error := Some (errorMessage err ''An unexpected error occurred.''), loading := False\<rparr>,
           [ReadAsDataURL (file_name file)])
      | Onerror \<Rightarrow> (reader_onerror st, [ReadAsDataURL (file_name file)])
      | Onload result \<Rightarrow>
          (let r = reader_onload extract gtZero file result st
           in (fst r, ReadAsDataURL (file_name file) # snd r)))"

text \<open>\<open>handleFileChange\<close> of \<open>src/App.tsx\<close>: no check of the file's type.\<close>

definition App_handleFileChange ::
  "(File \<Rightarrow> read_outcome) \<Rightarrow> (string option \<Rightarrow> string \<Rightarrow> extraction) \<Rightarrow> (json \<Rightarrow> thrown + bool)
     \<Rightarrow> File option \<Rightarrow> AppState \<Rightarrow> AppState \<times> effect list" where
  "App_handleFileChange readAsDataURL extract gtZero files0 st =
     (case files0 of
        None \<Rightarrow> (st, [])
      | Some file \<Rightarrow>
          completeProcessing extract gtZero file (readAsDataURL file) (beginProcessing file st))"

text \<open>The shell with the drop zone (the second component of \<open>src/components/DataTable.tsx\<close>).\<close>

definition acceptedTypes :: "string list" where
  "acceptedTypes = [''application/pdf'', ''image/png'', ''image/jpeg'', ''image/jpg'']"

definition processFile ::
  "(File \<Rightarrow> read_outcome) \<Rightarrow> (string option \<Rightarrow> string \<Rightarrow> extraction) \<Rightarrow> (json \<Rightarrow> thrown + bool)
     \<Rightarrow> File \<Rightarrow> AppState \<Rightarrow> AppState \<times> effect list" where
  "processFile readAsDataURL extract gtZero file st =
     (if file_type file \<notin> set acceptedTypes then
        (st\<lparr>error := Some (''Unsupported file type: '' @ file_type file
                            @ ''. Please upload a PDF or image file.'')\<rparr>, [])
      else completeProcessing extract gtZero file (readAsDataURL file) (beginProcessing file st))"

definition handleFileChange ::
  "(File \<Rightarrow> read_outcome) \<Rightarrow> (string option \<Rightarrow> string \<Rightarrow> extraction) \<Rightarrow> (json \<Rightarrow> thrown + bool)
     \<Rightarrow> File option \<Rightarrow> AppState \<Rightarrow> AppState \<times> effect list" where
  "handleFileChange readAsDataURL extract gtZero files0 st =
     (case files0 of None \<Rightarrow> (st, []) | Some file \<Rightarrow> processFile readAsDataURL extract gtZero file st)"

definition handleDrop ::
  "(File \<Rightarrow> read_outcome) \<Rightarrow> (string option \<Rightarrow> string \<Rightarrow> extraction) \<Rightarrow> (json \<Rightarrow> thrown + bool)
     \<Rightarrow> File option \<Rightarrow> AppState \<Rightarrow> AppState \<times> effect list" where
  "handleDrop readAsDataURL extract gtZero files0 st =
     (case files0 of
        None \<Rightarrow> (st\<lparr>isDragging := False\<rparr>, [])
      | Some file \<Rightarrow> processFile readAsDataURL extract gtZero file (st\<lparr>isDragging := False\<rparr>))"

definition resetState :: "AppState \<Rightarrow> AppState" where
  "resetState st = st\<lparr>data := None, error := None, fileName := None, loading := False\<rparr>"

subsection \<open>What the user can do in a state\<close>

datatype control = TryAgain | ProcessAnother | DownloadExcel | DropZone | FileInput

text \<open>
  \<open>renderContent\<close> of the shell with the drop zone, as the controls that carry a handler in
  what it renders: none beside the spinner while loading; the retry button beside an error
  message; the reset and download buttons beside the table; otherwise the drop zone with
  the file input.  A message and a value count when they are truthy.
\<close>

definition renderContent :: "AppState \<Rightarrow> control list" where
  "renderContent st =
     (if loading st then []
      else if (case error st of Some message \<Rightarrow> message \<noteq> [] | None \<Rightarrow> False) then [TryAgain]
      else if (case data st of Some x \<Rightarrow> truthy x | None \<Rightarrow> False) then [ProcessAnother, DownloadExcel]
      else [DropZone, FileInput])"

text \<open>
  The controls of \<open>src/App.tsx\<close>: the file input, disabled while loading, and the download
  button beside the table.
\<close>

definition App_controls :: "AppState \<Rightarrow> control list" where
  "App_controls st =
     (if loading st then [] else [FileInput])
     @ (if (case data st of Some x \<Rightarrow> truthy x | None \<Rightarrow> False) then [DownloadExcel] else [])"

text \<open>
  What can happen to a shell: the user acts on a control, drags a file over the page or
  drops it, or the reader of a file that is being processed settles.
\<close>

datatype event =
  Click control
  | Change "File option"
  | DragEnter | DragLeave | DragOver
  | Drop "File option"
  | ReaderSettles File read_outcome

text \<open>
  The part of \<open>processFile\<close> that runs at once, before the reader settles: the check of the
  type, and the entry into the loading state.
\<close>

definition processFile_dispatch :: "File \<Rightarrow> AppState \<Rightarrow> AppState" where
  "processFile_dispatch file st =
     (if file_type file \<notin> set acceptedTypes then
        st\<lparr>error := Some (''Unsupported file type: '' @ file_type file
                           @ ''. Please upload a PDF or image file.'')\<rparr>
      else beginProcessing file st)"

text \<open>
  The state after an event, for the shell with the drop zone.  An event on a control that
  is not rendered cannot happen and leaves the state as it is; the download does not touch
  the state.
\<close>

definition shellEvent ::
  "(string option \<Rightarrow> string \<Rightarrow> extraction) \<Rightarrow> (json \<Rightarrow> thrown + bool) \<Rightarrow> event \<Rightarrow> AppState
     \<Rightarrow> AppState" where
  "shellEvent extract gtZero ev st =
     (case ev of
        ReaderSettles file outcome \<Rightarrow> fst (completeProcessing extract gtZero file outcome st)
      | Click c \<Rightarrow>
          if c \<in> set (renderContent st) \<and> (c = TryAgain \<or> c = ProcessAnother) then resetState st
          else st
      | Change files0 \<Rightarrow>
          if FileInput \<in> set (renderContent st) then
            (case files0 of None \<Rightarrow> st | Some file \<Rightarrow> processFile_dispatch file st)
          else st
      | DragEnter \<Rightarrow> if DropZone \<in> set (renderContent st) then st\<lparr>isDragging := True\<rparr> else st
      | DragLeave \<Rightarrow> if DropZone \<in> set (renderContent st) then st\<lparr>isDragging := False\<rparr> else st
      | DragOver \<Rightarrow> st
      | Drop files0 \<Rightarrow>
          if DropZone \<in> set (renderContent st) then
            (case files0 of
               None \<Rightarrow> st\<lparr>isDragging := False\<rparr>
             | Some file \<Rightarrow> processFile_dispatch file (st\<lparr>isDragging := False\<rparr>))
          else st)"

text \<open>The same for \<open>src/App.tsx\<close>, which has no drop zone and no reset.\<close>

definition App_shellEvent ::
  "(string option \<Rightarrow> string \<Rightarrow> extraction) \<Rightarrow> (json \<Rightarrow> thrown + bool) \<Rightarrow> event \<Rightarrow> AppState
     \<Rightarrow> AppState" where
  "App_shellEvent extract gtZero ev st =
     (case ev of
        ReaderSettles file outcome \<Rightarrow> fst (completeProcessing extract gtZero file outcome st)
      | Change files0 \<Rightarrow>
          if FileInput \<in> set (App_controls st) then
            (case files0 of None \<Rightarrow> st | Some file \<Rightarrow> beginProcessing file st)
          else st
      | _ \<Rightarrow> st)"

text \<open>
  The states of the shell, read off the state variables that the handlers set: loading
  while \<open>loading\<close> is set; otherwise an error if \<open>error\<close> is not \<open>null\<close> and holds a
  message, a success if \<open>data\<close> is not \<open>null\<close> and holds a value, and idle if both are
  \<open>null\<close>.
\<close>

datatype shell_state = Idle | Loading | Success json | Failed string

definition shellState :: "AppState \<Rightarrow> shell_state" where
  "shellState st =
     (if loading st then Loading
      else (case error st of
              Some message \<Rightarrow> Failed message
            | None \<Rightarrow> (case data st of Some x \<Rightarrow> Success x | None \<Rightarrow> Idle)))"

subsection \<open>Examples of what the shell is given\<close>

text \<open>
  The extraction when the model answers with the text \<open>abc\<close> between double quotes, which
  is valid JSON: \<open>extractDataFromFile\<close> returns the string \<open>abc\<close>.
\<close>

definition extractReturnsString :: "string option \<Rightarrow> string \<Rightarrow> extraction" where
  "extractReturnsString base64 fileType = Returns (JString ''abc'')"

text \<open>The extraction when the model answers with one well-formed journal row.\<close>

definition oneRow :: json where
  "oneRow =
     JArray [JObject [(''date'', JString ''01/02/2024''), (''compteGeneral'', JString ''34210000''),
                      (''compteTier'', JString ''CMI12345''), (''libelle'', JString ''TOTAL REMISE''),
                      (''debit'', JString []), (''credit'', JString ''12,50'')]]"

definition extractReturnsOneRow :: "string option \<Rightarrow> string \<Rightarrow> extraction" where
  "extractReturnsOneRow base64 fileType = Returns oneRow"

text \<open>
  The run time's \<open>y > 0\<close> on the members used in the examples: a number is compared as it
  is, \<open>null\<close> counts as 0 and a truth value as 0 or 1; no other member is used.
\<close>

definition gtZero_examples :: "json \<Rightarrow> thrown + bool" where
  "gtZero_examples y =
     (case y of JNumber q \<Rightarrow> Inr (0 < q) | JBool b \<Rightarrow> Inr b | _ \<Rightarrow> Inr False)"

definition statement_pdf :: File where
  "statement_pdf = \<lparr>file_name = ''statement.pdf'', file_type = ''application/pdf''\<rparr>"

definition initialState :: AppState where
  "initialState = \<lparr>data = None, loading = False, error = None, fileName = None, isDragging = False\<rparr>"

section \<open>Properties of the spreadsheet export\<close>

subsection \<open>What \<open>json_to_sheet\<close> makes of the export rows\<close>

lemma lt6: "(c::nat) < 6 \<longleftrightarrow> c = 0 \<or> c = 1 \<or> c = 2 \<or> c = 3 \<or> c = 4 \<or> c = 5"
  by arith

lemma add_row_hdr:
  "hdr = [] \<or> hdr = exportHeader \<Longrightarrow>
   fst (fold (sheet_add_key R) (dataForExport row) (hdr, ws)) = exportHeader"
  by (auto simp: dataForExport_def exportHeader_def)

lemma add_row_cells:
  "hdr = [] \<or> hdr = exportHeader \<Longrightarrow>
   snd (fold (sheet_add_key R) (dataForExport row) (hdr, ws)) (c, j) =
     (if j = Suc R \<and> c < 6 then Some (rowCell row c) else ws (c, j))"
  by (auto simp: dataForExport_def exportHeader_def rowCell_def lt6)

lemma add_rows_hdr:
  "hdr = [] \<or> hdr = exportHeader \<Longrightarrow> rows \<noteq> [] \<Longrightarrow>
   fst (sheet_add_rows R (map dataForExport rows) (hdr, ws)) = exportHeader"
proof (induction rows arbitrary: R hdr ws)
  case Nil then show ?case by simp
next
  case (Cons row rows)
  obtain h' w' where f: "fold (sheet_add_key R) (dataForExport row) (hdr, ws) = (h', w')"
    by (cases "fold (sheet_add_key R) (dataForExport row) (hdr, ws)")
  have h': "h' = exportHeader" using add_row_hdr[OF Cons.prems(1), of R row ws] f by simp
  show ?case
  proof (cases "rows = []")
    case True then show ?thesis using f h' by simp
  next
    case False
    then show ?thesis using Cons.IH[of h' "Suc R" w'] f h' by simp
  qed
qed

lemma add_rows_cells:
  "hdr = [] \<or> hdr = exportHeader \<Longrightarrow>
   snd (sheet_add_rows R (map dataForExport rows) (hdr, ws)) (c, j) =
     (if R < j \<and> j \<le> R + length rows \<and> c < 6 then Some (rowCell (rows ! (j - Suc R)) c)
      else ws (c, j))"
proof (induction rows arbitrary: R hdr ws)
  case Nil then show ?case by auto
next
  case (Cons row rows)
  obtain h' w' where f: "fold (sheet_add_key R) (dataForExport row) (hdr, ws) = (h', w')"
    by (cases "fold (sheet_add_key R) (dataForExport row) (hdr, ws)")
  have h': "h' = exportHeader" using add_row_hdr[OF Cons.prems(1), of R row ws] f by simp
  have w': "w' (c, j) = (if j = Suc R \<and> c < 6 then Some (rowCell row c) else ws (c, j))"
    using add_row_cells[OF Cons.prems(1), of R row ws c j] f by simp
  have ih: "snd (sheet_add_rows (Suc R) (map dataForExport rows) (h', w')) (c, j) =
     (if Suc R < j \<and> j \<le> Suc R + length rows \<and> c < 6 then Some (rowCell (rows ! (j - Suc (Suc R))) c)
      else w' (c, j))"
    using Cons.IH[of h' "Suc R" w'] h' by simp
  show ?case
  proof (cases "j = Suc R")
    case True
    then show ?thesis using ih w' f by simp
  next
    case False
    then have "Suc R < j \<Longrightarrow> (row # rows) ! (j - Suc R) = rows ! (j - Suc (Suc R))"
      by (metis Suc_diff_Suc nth_Cons_Suc)
    then show ?thesis using ih w' f False by auto
  qed
qed

lemma fold_header:
  "fold (\<lambda>C m. m((C, 0::nat) \<mapsto> f C)) [0..<n] ws (c, j) =
     (if j = 0 \<and> c < n then Some (f c) else ws (c, j))"
  by (induction n) (auto simp: less_Suc_eq)

subsection \<open>The formatting loop\<close>

lemma formatted_idem: "formatted (formatted x) = formatted x"
  by (simp add: formatted_def split: option.splits)

lemma setNumberFormat_apply:
  "setNumberFormat b ws a = (if a = b then formatted (ws a) else ws a)"
  by (simp add: setNumberFormat_def formatted_def split: option.splits)

lemma fold_setNumberFormat:
  "fold setNumberFormat as ws a = (if a \<in> set as then formatted (ws a) else ws a)"
proof (induction as arbitrary: ws)
  case Nil
  then show ?case by simp
next
  case (Cons b as)
  have "fold setNumberFormat (b # as) ws a = fold setNumberFormat as (setNumberFormat b ws) a"
    by simp
  also have "\<dots> = (if a \<in> set as then formatted (setNumberFormat b ws a)
                   else setNumberFormat b ws a)"
    by (rule Cons.IH)
  also have "\<dots> = (if a \<in> set (b # as) then formatted (ws a) else ws a)"
    by (simp add: setNumberFormat_apply formatted_idem)
  finally show ?case .
qed

lemma formatAddresses_json_to_sheet:
  "(c, j) \<in> set (formatAddresses (json_to_sheet js\<lparr>cols := w\<rparr>))
     \<longleftrightarrow> (c = 4 \<or> c = 5) \<and> 0 < j \<and> j \<le> length js"
  by (auto simp: formatAddresses_def json_to_sheet_def Let_def)

subsection \<open>The cells of the exported sheet\<close>

lemma exportSheet_data_cells:
  assumes "0 < j"
  shows "cells (exportSheet rows) (c, j) =
     (if j \<le> length rows \<and> c < 6 then
        (if c = 4 \<or> c = 5 then formatted (Some (rowCell (rows ! (j - 1)) c))
         else Some (rowCell (rows ! (j - 1)) c))
      else None)"
proof -
  let ?acc = "sheet_add_rows 0 (map dataForExport rows) ([], Map.empty)"
  have raw: "cells (json_to_sheet (map dataForExport rows)) (c, j) =
      (if j \<le> length rows \<and> c < 6 then Some (rowCell (rows ! (j - 1)) c) else None)"
    using assms add_rows_cells[of "[]" 0 rows Map.empty c j]
    by (simp add: json_to_sheet_def Let_def fold_header)
  show ?thesis
    using assms raw
    by (auto simp: exportSheet_def Let_def fold_setNumberFormat
        formatAddresses_json_to_sheet formatted_def)
qed

lemma exportSheet_header_cells:
  assumes "rows \<noteq> []"
  shows "cells (exportSheet rows) (c, 0) =
     (if c < 6 then Some (headerCell (exportHeader ! c)) else None)"
proof -
  have hdr: "fst (sheet_add_rows 0 (map dataForExport rows) ([], Map.empty)) = exportHeader"
    using add_rows_hdr[of "[]" rows 0 Map.empty] assms by simp
  have len: "length exportHeader = 6" by (simp add: exportHeader_def)
  have raw: "cells (json_to_sheet (map dataForExport rows)) (c, 0) =
      (if c < 6 then Some (headerCell (exportHeader ! c)) else None)"
    using add_rows_cells[of "[]" 0 rows Map.empty c 0]
    by (simp add: json_to_sheet_def Let_def fold_header hdr len)
  show ?thesis
    using raw
    by (simp add: exportSheet_def Let_def fold_setNumberFormat formatAddresses_json_to_sheet)
qed

lemma exportSheet_empty_header: "cells (exportSheet []) (c, 0) = None"
  by (simp add: exportSheet_def json_to_sheet_def Let_def fold_setNumberFormat
      formatAddresses_def)

lemma rowCell_debit: "rowCell row 4 = cellOfValue (amountCell (debit row))"
  by (simp add: rowCell_def dataForExport_def)

lemma rowCell_credit: "rowCell row 5 = cellOfValue (amountCell (credit row))"
  by (simp add: rowCell_def dataForExport_def)

lemma exportSheet_debit_cell:
  "i < length rows \<Longrightarrow>
   cells (exportSheet rows) (4, Suc i) = formatted (Some (cellOfValue (amountCell (debit (rows ! i)))))"
  using exportSheet_data_cells[of "Suc i" rows 4] by (simp add: rowCell_debit)

lemma exportSheet_credit_cell:
  "i < length rows \<Longrightarrow>
   cells (exportSheet rows) (5, Suc i) = formatted (Some (cellOfValue (amountCell (credit (rows ! i)))))"
  using exportSheet_data_cells[of "Suc i" rows 5] by (simp add: rowCell_credit)

lemma formatted_amount:
  "formatted (Some (cellOfValue (amountCell s))) =
     (if s = [] then Some \<lparr>cell_t = ''z'', cell_v = VNull, cell_z = None\<rparr>
      else Some \<lparr>cell_t = ''n'', cell_v = amountCell s, cell_z = Some ''#,##0.00''\<rparr>)"
  by (simp add: formatted_def cellOfValue_def amountCell_def)

lemma formatted_number:
  "formatted (Some (cellOfValue (VNumber n))) =
     Some \<lparr>cell_t = ''n'', cell_v = VNumber n, cell_z = Some ''#,##0.00''\<rparr>"
  by (simp add: formatted_def cellOfValue_def)

subsection \<open>Amounts\<close>

lemmas parseFloat_eval =
  amountCell_def parseFloat_def removeAll_char_def isStrWhiteSpaceChar_def isDecimalDigit_def
  digitsValue_def digitValue_def exponentPart_def scale10_def Let_def

lemma amountCell_dot_grouped: "amountCell ''1.234,56'' = VNumber (Finite False (123456 / 100))"
  by (simp add: parseFloat_eval)

lemma amountCell_space_grouped: "amountCell ''1 234,56'' = VNumber (Finite False 1)"
  by (simp add: parseFloat_eval)

lemma amountCell_abc: "amountCell ''abc'' = VNumber NaN"
  by (simp add: parseFloat_eval)

text \<open>
  Claim C1, as amended.  The export removes every full stop from the amount and turns the
  first comma into a decimal point before \<open>parseFloat\<close> reads it.  For every row whose
  debit (or credit) string is \<open>1.234,56\<close>, with the full stop as thousands separator, the
  exported cell is numeric, its value is exactly 1234.56 and its display format is
  \<open>#,##0.00\<close> (two decimal places, thousands grouping).
\<close>

theorem export_dot_grouped_amount:
  assumes "i < length rows"
  shows "(debit (rows ! i) = ''1.234,56'' \<longrightarrow>
            cells (exportSheet rows) (4, Suc i) =
              Some \<lparr>cell_t = ''n'', cell_v = VNumber (Finite False (123456 / 100)),
                    cell_z = Some ''#,##0.00''\<rparr>)
       \<and> (credit (rows ! i) = ''1.234,56'' \<longrightarrow>
            cells (exportSheet rows) (5, Suc i) =
              Some \<lparr>cell_t = ''n'', cell_v = VNumber (Finite False (123456 / 100)),
                    cell_z = Some ''#,##0.00''\<rparr>)"
  using assms
  by (simp add: exportSheet_debit_cell exportSheet_credit_cell formatted_number
      amountCell_dot_grouped)

theorem export_dot_grouped_amount_witness:
  "cells (exportSheet [\<lparr>date = ''01/02/2024'', compteGeneral = ''61740000'', compteTier = [],
                        libelle = ''COMMISSIONS HT'', debit = ''1.234,56'', credit = []\<rparr>]) (4, 1) =
     Some \<lparr>cell_t = ''n'', cell_v = VNumber (Finite False (123456 / 100)),
           cell_z = Some ''#,##0.00''\<rparr>"
  using export_dot_grouped_amount[of 0 "[\<lparr>date = ''01/02/2024'', compteGeneral = ''61740000'', compteTier = [],
                        libelle = ''COMMISSIONS HT'', debit = ''1.234,56'', credit = []\<rparr>]"]
  by simp

text \<open>
  Claim C1 as stated fails: a space is not removed, \<open>parseFloat\<close> stops reading at it, and
  the cell exported for the debit string \<open>1 234,56\<close> holds the number 1, not 1234.56.
\<close>

theorem export_space_grouped_amount_counterexample:
  "cells (exportSheet [\<lparr>date = ''01/02/2024'', compteGeneral = ''61740000'', compteTier = [],
                        libelle = ''COMMISSIONS HT'', debit = ''1 234,56'', credit = []\<rparr>]) (4, 1) =
     Some \<lparr>cell_t = ''n'', cell_v = VNumber (Finite False 1), cell_z = Some ''#,##0.00''\<rparr>
   \<and> Finite False 1 \<noteq> Finite False (123456 / 100)"
  using exportSheet_debit_cell[of 0 "[\<lparr>date = ''01/02/2024'', compteGeneral = ''61740000'', compteTier = [],
                        libelle = ''COMMISSIONS HT'', debit = ''1 234,56'', credit = []\<rparr>]"]
  by (simp add: formatted_number amountCell_space_grouped)

text \<open>
  Claim C6.  For every row of the exported array, an empty debit (credit) string gives a stub
  cell in column E (F): type \<open>z\<close>, value \<open>null\<close>, no display format, hence an empty cell
  and not the number zero.  The display format \<open>#,##0.00\<close> is on the debit (credit) cell
  exactly when the debit (credit) string is not empty.
\<close>

theorem empty_amount_exports_empty_cell:
  assumes "i < length rows"
  shows "(debit (rows ! i) = [] \<longrightarrow>
            cells (exportSheet rows) (4, Suc i) =
              Some \<lparr>cell_t = ''z'', cell_v = VNull, cell_z = None\<rparr>)
       \<and> (credit (rows ! i) = [] \<longrightarrow>
            cells (exportSheet rows) (5, Suc i) =
              Some \<lparr>cell_t = ''z'', cell_v = VNull, cell_z = None\<rparr>)
       \<and> (map_option cell_z (cells (exportSheet rows) (4, Suc i)) = Some (Some ''#,##0.00'')
            \<longleftrightarrow> debit (rows ! i) \<noteq> [])
       \<and> (map_option cell_z (cells (exportSheet rows) (5, Suc i)) = Some (Some ''#,##0.00'')
            \<longleftrightarrow> credit (rows ! i) \<noteq> [])"
  using assms
  by (simp add: exportSheet_debit_cell exportSheet_credit_cell formatted_amount)

theorem empty_amount_exports_empty_cell_witness:
  "cells (exportSheet [\<lparr>date = ''01/02/2024'', compteGeneral = ''34210000'', compteTier = ''CMI12345'',
                        libelle = ''TOTAL REMISE'', debit = [], credit = ''12,50''\<rparr>]) (4, 1) =
     Some \<lparr>cell_t = ''z'', cell_v = VNull, cell_z = None\<rparr>
   \<and> map_option cell_z
        (cells (exportSheet [\<lparr>date = ''01/02/2024'', compteGeneral = ''34210000'', compteTier = ''CMI12345'',
                        libelle = ''TOTAL REMISE'', debit = [], credit = ''12,50''\<rparr>]) (5, 1)) =
       Some (Some ''#,##0.00'')"
  using empty_amount_exports_empty_cell[of 0 "[\<lparr>date = ''01/02/2024'', compteGeneral = ''34210000'', compteTier = ''CMI12345'',
                        libelle = ''TOTAL REMISE'', debit = [], credit = ''12,50''\<rparr>]"]
  by simp

text \<open>
  Claim C8.  For every non-empty row array the export saves one file, named
  \<open>cmi_statement_data.xlsx\<close>, whose workbook has the single sheet \<open>CMI Statement\<close>; row 0
  of the sheet holds exactly the six headers DATE, COMPTE GENERAL, COMPTE TIER, LIBELLE,
  DEBIT, CREDIT in that order and nothing beyond them, and the column widths are 15, 20, 20,
  80, 15 and 15 characters.
\<close>

theorem export_sheet_layout:
  assumes "rows \<noteq> []"
  shows "handleDownloadExcel (Some rows) =
           Some (''cmi_statement_data.xlsx'',
                 \<lparr>SheetNames = [''CMI Statement''],
                  Sheets = [(''CMI Statement'', exportSheet rows)]\<rparr>)
       \<and> map (\<lambda>C. cells (exportSheet rows) (C, 0)) [0, 1, 2, 3, 4, 5] =
           map (\<lambda>k. Some (headerCell k))
             [''DATE'', ''COMPTE GENERAL'', ''COMPTE TIER'', ''LIBELLE'', ''DEBIT'', ''CREDIT'']
       \<and> (\<forall>C. 6 \<le> C \<longrightarrow> cells (exportSheet rows) (C, 0) = None)
       \<and> cols (exportSheet rows) = Some [15, 20, 20, 80, 15, 15]"
proof -
  have saved: "handleDownloadExcel (Some rows) =
           Some (''cmi_statement_data.xlsx'',
                 \<lparr>SheetNames = [''CMI Statement''],
                  Sheets = [(''CMI Statement'', exportSheet rows)]\<rparr>)"
    by (simp add: handleDownloadExcel_def book_append_sheet_def book_new_def)
  have hdr: "map (\<lambda>C. cells (exportSheet rows) (C, 0)) [0, 1, 2, 3, 4, 5] =
           map (\<lambda>k. Some (headerCell k))
             [''DATE'', ''COMPTE GENERAL'', ''COMPTE TIER'', ''LIBELLE'', ''DEBIT'', ''CREDIT'']"
    by (simp add: exportSheet_header_cells[OF assms] exportHeader_def)
  have beyond: "\<forall>C. 6 \<le> C \<longrightarrow> cells (exportSheet rows) (C, 0) = None"
    by (simp add: exportSheet_header_cells[OF assms])
  have widths: "cols (exportSheet rows) = Some [15, 20, 20, 80, 15, 15]"
    by (simp add: exportSheet_def Let_def columnWidths_def)
  from saved hdr beyond widths show ?thesis by blast
qed

theorem export_sheet_layout_witness:
  "handleDownloadExcel (Some [\<lparr>date = ''01/02/2024'', compteGeneral = ''34210000'', compteTier = ''CMI12345'',
                        libelle = ''TOTAL REMISE'', debit = [], credit = ''12,50''\<rparr>]) =
     Some (''cmi_statement_data.xlsx'',
           \<lparr>SheetNames = [''CMI Statement''],
            Sheets = [(''CMI Statement'',
               exportSheet [\<lparr>date = ''01/02/2024'', compteGeneral = ''34210000'', compteTier = ''CMI12345'',
                        libelle = ''TOTAL REMISE'', debit = [], credit = ''12,50''\<rparr>])]\<rparr>)
   \<and> cells (exportSheet [\<lparr>date = ''01/02/2024'', compteGeneral = ''34210000'', compteTier = ''CMI12345'',
                        libelle = ''TOTAL REMISE'', debit = [], credit = ''12,50''\<rparr>]) (4, 0) =
       Some \<lparr>cell_t = ''s'', cell_v = VString ''DEBIT'', cell_z = None\<rparr>
   \<and> cells (exportSheet [\<lparr>date = ''01/02/2024'', compteGeneral = ''34210000'', compteTier = ''CMI12345'',
                        libelle = ''TOTAL REMISE'', debit = [], credit = ''12,50''\<rparr>]) (6, 0) = None"
  using export_sheet_layout[of "[\<lparr>date = ''01/02/2024'', compteGeneral = ''34210000'', compteTier = ''CMI12345'',
                        libelle = ''TOTAL REMISE'', debit = [], credit = ''12,50''\<rparr>]"]
  by (simp add: headerCell_def)

text \<open>
  Claim C10.  For the row whose debit string is \<open>abc\<close>, not empty and not a number, the export
  does save a file, and the debit cell is not empty: its value is \<open>NaN\<close>, its type is numeric
  and it carries the display format \<open>#,##0.00\<close>.
\<close>

theorem non_numeric_amount_exports_NaN:
  "handleDownloadExcel (Some [\<lparr>date = ''01/02/2024'', compteGeneral = ''61740000'', compteTier = [],
                        libelle = ''COMMISSIONS HT'', debit = ''abc'', credit = []\<rparr>]) \<noteq> None
   \<and> cells (exportSheet [\<lparr>date = ''01/02/2024'', compteGeneral = ''61740000'', compteTier = [],
                        libelle = ''COMMISSIONS HT'', debit = ''abc'', credit = []\<rparr>]) (4, 1) =
     Some \<lparr>cell_t = ''n'', cell_v = VNumber NaN, cell_z = Some ''#,##0.00''\<rparr>"
  using exportSheet_debit_cell[of 0 "[\<lparr>date = ''01/02/2024'', compteGeneral = ''61740000'', compteTier = [],
                        libelle = ''COMMISSIONS HT'', debit = ''abc'', credit = []\<rparr>]"]
  by (simp add: formatted_number amountCell_abc handleDownloadExcel_def)

section \<open>Properties of the extraction client\<close>

lemma catchBlock_empty_response:
  "catchBlock (Error ''The AI returned an empty response. The document might be unreadable or not a CMI statement.'') =
     Error ''An error occurred while processing the statement: The AI returned an empty response. The document might be unreadable or not a CMI statement.''"
  by (simp add: catchBlock_def toLowerCase_def toLowerCase_char_def)

lemma v8_message_mentions_json:
  "includes_str (toLowerCase ''Unexpected token o in JSON at position 1'') ''json''"
  by code_simp

text \<open>Whatever \<open>extractDataFromFile\<close> throws is an \<open>Error\<close> with a message that is not empty.\<close>

lemma catchBlock_message: "\<exists>message. catchBlock e = Error message \<and> message \<noteq> []"
  by (cases e) (simp_all add: catchBlock_def)

lemma extractDataFromFile_throws_Error:
  assumes "fst (extractDataFromFile generateContent JSON_parse fileBase64 fileType sent) = Inl e"
  shows "\<exists>message. e = Error message \<and> message \<noteq> []"
proof -
  obtain e' where "e = catchBlock e'"
    using assms by (auto simp: extractDataFromFile_def Let_def split: sum.splits)
  then show ?thesis using catchBlock_message[of e'] by simp
qed

text \<open>
  Claim C3.  For every call in which the model answers with a text that is empty after
  trimming, \<open>extractDataFromFile\<close> returns no rows: it throws an \<open>Error\<close> whose message says
  that the response was empty and that the document might be unreadable or not a CMI
  statement.
\<close>

theorem empty_response_reported_unreadable:
  assumes "generateContent sent (buildRequest fileBase64 fileType) = Response text"
    and "trim text = []"
  shows "fst (extractDataFromFile generateContent JSON_parse fileBase64 fileType sent) =
     Inl (Error ''An error occurred while processing the statement: The AI returned an empty response. The document might be unreadable or not a CMI statement.'')"
  using assms
  by (simp add: extractDataFromFile_def tryBlock_def Let_def catchBlock_empty_response)

theorem empty_response_reported_unreadable_witness:
  "fst (extractDataFromFile (\<lambda>sent request. Response ''  '') JSON_parse_examples ''aGk='' ''image/png'' []) =
     Inl (Error ''An error occurred while processing the statement: The AI returned an empty response. The document might be unreadable or not a CMI statement.'')"
  using empty_response_reported_unreadable[of "\<lambda>sent request. Response ''  ''" "[]" "''aGk=''" "''image/png''" "''  ''" JSON_parse_examples]
  by (simp add: trim_def isStrWhiteSpaceChar_def)

text \<open>
  Claim C4.  For every call in which the model answers with a text that is not empty after
  trimming and that \<open>JSON.parse\<close> rejects, \<open>extractDataFromFile\<close> throws an \<open>Error\<close> saying
  that the format is invalid and suggesting a clearer image or a different file.  The code
  recognises the rejection by the word \<open>json\<close> in the message of the \<open>SyntaxError\<close>; that
  the engine's message has it is the last hypothesis.
\<close>

theorem invalid_json_reported_invalid_format:
  assumes "generateContent sent (buildRequest fileBase64 fileType) = Response text"
    and "trim text \<noteq> []"
    and "JSON_parse (trim text) = Inl message"
    and "includes_str (toLowerCase message) ''json''"
  shows "fst (extractDataFromFile generateContent JSON_parse fileBase64 fileType sent) =
     Inl (Error ''The AI returned an invalid format. Please try a clearer image or a different file.'')"
  using assms
  by (simp add: extractDataFromFile_def tryBlock_def Let_def catchBlock_def)

theorem invalid_json_reported_invalid_format_witness:
  "fst (extractDataFromFile (\<lambda>sent request. Response ''not json'') JSON_parse_examples ''aGk='' ''image/png'' []) =
     Inl (Error ''The AI returned an invalid format. Please try a clearer image or a different file.'')"
  using invalid_json_reported_invalid_format[of "\<lambda>sent request. Response ''not json''" "[]" "''aGk=''" "''image/png''" "''not json''"
      JSON_parse_examples "''Unexpected token o in JSON at position 1''"]
    v8_message_mentions_json
  by (simp add: trim_def isStrWhiteSpaceChar_def JSON_parse_examples_def)




text \<open>
  Claim C9.  For every answer whose trimmed text is not empty and that \<open>JSON.parse\<close>
  accepts, \<open>extractDataFromFile\<close> returns the parsed value as it is, whatever its shape.
  The examples after the theorem are answers for which the returned value is not an array
  of journal rows: the number 5, and an array holding an object without any field.
\<close>

theorem parsed_value_returned_unvalidated:
  assumes "generateContent sent (buildRequest fileBase64 fileType) = Response text"
    and "trim text \<noteq> []"
    and "JSON_parse (trim text) = Inr v"
  shows "fst (extractDataFromFile generateContent JSON_parse fileBase64 fileType sent) = Inr v"
  using assms
  by (simp add: extractDataFromFile_def tryBlock_def Let_def)

theorem parsed_value_returned_unvalidated_witness:
  "fst (extractDataFromFile (\<lambda>sent request. Response ''5'') JSON_parse_examples ''aGk='' ''image/png'' []) =
     Inr (JNumber 5)
   \<and> \<not> isStatementRows (JNumber 5)
   \<and> fst (extractDataFromFile (\<lambda>sent request. Response ''[{}]'') JSON_parse_examples ''aGk='' ''image/png'' []) =
     Inr (JArray [JObject []])
   \<and> \<not> isStatementRows (JArray [JObject []])"
  using parsed_value_returned_unvalidated[of "\<lambda>sent request. Response ''5''" "[]" "''aGk=''" "''image/png''" "''5''"
      JSON_parse_examples "JNumber 5"]
    parsed_value_returned_unvalidated[of "\<lambda>sent request. Response ''[{}]''" "[]" "''aGk=''" "''image/png''" "''[{}]''"
      JSON_parse_examples "JArray [JObject []]"]
  by (simp add: trim_def isStrWhiteSpaceChar_def JSON_parse_examples_def isStatementRows_def
      isStatementRow_def requiredFields_def)

section \<open>Properties of the application shell\<close>

subsection \<open>The test of the extracted value\<close>

lemma hasLength_array: "hasLength gtZero (JArray xs) = Inr (xs \<noteq> [])"
  by (simp add: hasLength_def truthy_def lengthProperty_def)

lemma hasLength_string: "hasLength gtZero (JString s) = Inr (s \<noteq> [])"
  by (simp add: hasLength_def truthy_def lengthProperty_def)

lemma hasLength_shapes:
  "hasLength gtZero x = Inr True \<longleftrightarrow>
     (\<exists>xs. x = JArray xs \<and> xs \<noteq> [])
     \<or> (\<exists>s. x = JString s \<and> s \<noteq> [])
     \<or> (\<exists>members y. x = JObject members \<and> map_of (rev members) ''length'' = Some y
           \<and> gtZero y = Inr True)"
  by (cases x) (auto simp: hasLength_def truthy_def lengthProperty_def split: option.splits)

subsection \<open>Leaving the loading state\<close>

lemma shellState_beginProcessing: "shellState (beginProcessing file st0) = Loading"
  by (simp add: shellState_def beginProcessing_def)

lemma completeProcessing_state:
  "shellState (fst (completeProcessing extract gtZero file outcome (beginProcessing file st0))) =
     (case outcome of
        ReadThrows err \<Rightarrow> Failed (errorMessage err ''An unexpected error occurred.'')
      | Onerror \<Rightarrow> Failed ''Failed to read the file. Please try again.''
      | Onload result \<Rightarrow>
          (case extract (element (split_on CHR '','' result) 1) (file_type file) of
             Returns extracted \<Rightarrow>
               (case hasLength gtZero extracted of
                  Inr True \<Rightarrow> Success extracted
                | Inr False \<Rightarrow> Failed ''No data could be extracted from the document. It might be empty or in an unsupported format.''
                | Inl err \<Rightarrow> Failed (errorMessage err ''An unexpected error occurred during processing.''))
           | Throws err \<Rightarrow> Failed (errorMessage err ''An unexpected error occurred during processing.'')
           | NeverSettles \<Rightarrow> Loading))"
  by (simp add: completeProcessing_def reader_onload_def reader_onerror_def beginProcessing_def
      shellState_def Let_def split: read_outcome.splits extraction.splits sum.splits bool.splits)

lemma loading_shows_no_control:
  assumes "loading st"
  shows "renderContent st = []" and "FileInput \<notin> set (App_controls st)"
  using assms by (simp_all add: renderContent_def App_controls_def)

lemma loading_ignores_user:
  assumes "loading st" and "\<forall>f outcome. ev \<noteq> ReaderSettles f outcome"
  shows "shellEvent extract gtZero ev st = st" and "App_shellEvent extract gtZero ev st = st"
  using assms
  by (cases ev; simp add: shellEvent_def App_shellEvent_def loading_shows_no_control)+

lemma processFile_by_dispatch:
  "processFile readAsDataURL extract gtZero file st =
     (if file_type file \<notin> set acceptedTypes then (processFile_dispatch file st, [])
      else completeProcessing extract gtZero file (readAsDataURL file) (processFile_dispatch file st))"
  by (simp add: processFile_def processFile_dispatch_def)

text \<open>
  Claim C5, as amended.  Once a file is being processed the shell is in the loading state.
  In a loading state no control is rendered (the file input of \<open>src/App.tsx\<close> is disabled),
  so every event other than the settling of a reader leaves the state as it is: the
  callbacks of the reader are the only way out.  When the reader settles, the shell is in
  the success state with a value exactly when the read succeeded and the extraction
  returned that value and the value passes \<open>extracted && extracted.length > 0\<close>; it stays
  loading exactly when the read succeeded and the extraction never settles; in every other
  case (the read throws or fails, the extraction throws, the value fails the test or the
  test throws) it is in the error state with a message; it is never idle.  An array passes
  the test exactly when it is not empty; nothing tests that the value is an array of rows.
  Both shells run this code: \<open>handleFileChange\<close> of \<open>src/App.tsx\<close>, and \<open>processFile\<close> for an
  accepted type.
\<close>

theorem loading_leads_to_success_or_error:
  "shellState (beginProcessing file st0) = Loading
   \<and> (\<forall>st ev. loading st \<and> (\<forall>f out. ev \<noteq> ReaderSettles f out) \<longrightarrow>
         shellEvent extract gtZero ev st = st \<and> App_shellEvent extract gtZero ev st = st)
   \<and> (let final = shellEvent extract gtZero (ReaderSettles file outcome) (beginProcessing file st0)
      in App_shellEvent extract gtZero (ReaderSettles file outcome) (beginProcessing file st0) = final
         \<and> (\<forall>x. shellState final = Success x \<longleftrightarrow>
               (\<exists>result. outcome = Onload result
                  \<and> extract (element (split_on CHR '','' result) 1) (file_type file) = Returns x
                  \<and> hasLength gtZero x = Inr True))
         \<and> (shellState final = Loading \<longleftrightarrow>
               (\<exists>result. outcome = Onload result
                  \<and> extract (element (split_on CHR '','' result) 1) (file_type file) = NeverSettles))
         \<and> ((\<forall>x. shellState final \<noteq> Success x) \<and> shellState final \<noteq> Loading \<longrightarrow>
               (\<exists>message. shellState final = Failed message))
         \<and> shellState final \<noteq> Idle)
   \<and> (\<forall>xs. hasLength gtZero (JArray xs) = Inr (xs \<noteq> []))
   \<and> App_handleFileChange readAsDataURL extract gtZero (Some file) st0 =
       completeProcessing extract gtZero file (readAsDataURL file) (beginProcessing file st0)
   \<and> (file_type file \<in> set acceptedTypes \<longrightarrow>
        processFile readAsDataURL extract gtZero file st0 =
          completeProcessing extract gtZero file (readAsDataURL file) (beginProcessing file st0))"
proof -
  let ?final = "fst (completeProcessing extract gtZero file outcome (beginProcessing file st0))"
  have ev: "shellEvent extract gtZero (ReaderSettles file outcome) (beginProcessing file st0) = ?final"
    by (simp add: shellEvent_def)
  have ev': "App_shellEvent extract gtZero (ReaderSettles file outcome) (beginProcessing file st0) = ?final"
    by (simp add: App_shellEvent_def)
  have user: "\<forall>st ev. loading st \<and> (\<forall>f out. ev \<noteq> ReaderSettles f out) \<longrightarrow>
         shellEvent extract gtZero ev st = st \<and> App_shellEvent extract gtZero ev st = st"
    using loading_ignores_user by blast
  have s: "\<forall>x. shellState ?final = Success x \<longleftrightarrow>
            (\<exists>result. outcome = Onload result
               \<and> extract (element (split_on CHR '','' result) 1) (file_type file) = Returns x
               \<and> hasLength gtZero x = Inr True)"
    by (auto simp: completeProcessing_state
        split: read_outcome.splits extraction.splits sum.splits bool.splits)
  have l: "shellState ?final = Loading \<longleftrightarrow>
            (\<exists>result. outcome = Onload result
               \<and> extract (element (split_on CHR '','' result) 1) (file_type file) = NeverSettles)"
    by (auto simp: completeProcessing_state
        split: read_outcome.splits extraction.splits sum.splits bool.splits)
  have e: "(\<forall>x. shellState ?final \<noteq> Success x) \<and> shellState ?final \<noteq> Loading \<longrightarrow>
            (\<exists>message. shellState ?final = Failed message)"
    by (auto simp: completeProcessing_state
        split: read_outcome.splits extraction.splits sum.splits bool.splits)
  have n: "shellState ?final \<noteq> Idle"
    by (auto simp: completeProcessing_state
        split: read_outcome.splits extraction.splits sum.splits bool.splits)
  have arr: "\<forall>xs. hasLength gtZero (JArray xs) = Inr (xs \<noteq> [])"
    by (simp add: hasLength_array)
  have a: "App_handleFileChange readAsDataURL extract gtZero (Some file) st0 =
       completeProcessing extract gtZero file (readAsDataURL file) (beginProcessing file st0)"
    by (simp add: App_handleFileChange_def)
  have p: "file_type file \<in> set acceptedTypes \<longrightarrow>
        processFile readAsDataURL extract gtZero file st0 =
          completeProcessing extract gtZero file (readAsDataURL file) (beginProcessing file st0)"
    by (simp add: processFile_def)
  show ?thesis
    unfolding Let_def ev ev'
    by (intro conjI) (rule shellState_beginProcessing user refl s l e n arr a p)+
qed

theorem loading_leads_to_success_or_error_witness:
  "shellState (shellEvent extractReturnsOneRow gtZero_examples
       (ReaderSettles statement_pdf (Onload ''data:application/pdf;base64,aGk=''))
       (beginProcessing statement_pdf initialState)) = Success oneRow
   \<and> shellEvent extractReturnsOneRow gtZero_examples (Click TryAgain)
       (beginProcessing statement_pdf initialState) = beginProcessing statement_pdf initialState
   \<and> processFile (\<lambda>file. Onload ''data:application/pdf;base64,aGk='') extractReturnsOneRow
       gtZero_examples statement_pdf initialState =
     completeProcessing extractReturnsOneRow gtZero_examples statement_pdf
       (Onload ''data:application/pdf;base64,aGk='') (beginProcessing statement_pdf initialState)"
proof -
  note inst = loading_leads_to_success_or_error[of statement_pdf initialState extractReturnsOneRow gtZero_examples
      "Onload ''data:application/pdf;base64,aGk=''" "\<lambda>file. Onload ''data:application/pdf;base64,aGk=''",
      unfolded Let_def]
  have loading: "loading (beginProcessing statement_pdf initialState)"
    by (simp add: beginProcessing_def)
  have user: "Click TryAgain \<noteq> ReaderSettles f out" for f out
    by simp
  have accepted: "file_type statement_pdf \<in> set acceptedTypes"
    by (simp add: statement_pdf_def acceptedTypes_def)
  have returned: "extractReturnsOneRow (element (split_on CHR '','' ''data:application/pdf;base64,aGk='') 1)
      (file_type statement_pdf) = Returns oneRow"
    by (simp add: extractReturnsOneRow_def)
  have nonempty: "hasLength gtZero_examples oneRow = Inr True"
    using inst by (simp add: oneRow_def)
  from inst loading user accepted returned nonempty show ?thesis
    by blast
qed

text \<open>
  Claim C5 as stated fails: when the model answers with the JSON string \<open>abc\<close>, the
  extraction returns that string, the test passes on its length 3, and the shell leaves
  the loading state for the success state although no row array was returned.
\<close>

theorem loading_success_without_rows_counterexample:
  "shellState (shellEvent extractReturnsString gtZero_examples
       (ReaderSettles statement_pdf (Onload ''data:application/pdf;base64,aGk=''))
       (beginProcessing statement_pdf initialState)) = Success (JString ''abc'')
   \<and> \<not> isStatementRows (JString ''abc'')"
  by (simp add: shellEvent_def completeProcessing_state extractReturnsString_def hasLength_string
      isStatementRows_def)

subsection \<open>The check of the declared type\<close>

text \<open>
  The check in \<open>processFile\<close>: a file whose type is not one of the accepted types only sets
  the error message; nothing is read and no extraction is called.
\<close>

lemma processFile_rejects_unlisted_type:
  assumes "file_type file \<notin> set acceptedTypes"
  shows "processFile readAsDataURL extract gtZero file st =
           (st\<lparr>error := Some (''Unsupported file type: '' @ file_type file
                               @ ''. Please upload a PDF or image file.'')\<rparr>, [])"
  using assms by (simp add: processFile_def)

lemma handleFileChange_rejects_unlisted_type:
  assumes "file_type file \<notin> set acceptedTypes"
  shows "snd (handleFileChange readAsDataURL extract gtZero (Some file) st) = []"
    and "snd (handleDrop readAsDataURL extract gtZero (Some file) st) = []"
  using assms by (simp_all add: handleFileChange_def handleDrop_def processFile_def)

text \<open>
  Claim C2.  \<open>handleFileChange\<close> of \<open>src/App.tsx\<close> does not check the declared type.  A
  selected file of type \<open>text/plain\<close>, which is not an accepted type, is read and passed to
  the extraction, whereas \<open>processFile\<close> stops the same file before any read.
\<close>

theorem App_handleFileChange_unlisted_type_reaches_extraction:
  "''text/plain'' \<notin> set acceptedTypes
   \<and> snd (App_handleFileChange (\<lambda>file. Onload ''data:text/plain;base64,aGk='') extract gtZero
           (Some \<lparr>file_name = ''notes.txt'', file_type = ''text/plain''\<rparr>) st) =
       [ReadAsDataURL ''notes.txt'', ExtractionCall (Some ''aGk='') ''text/plain'']
   \<and> snd (processFile (\<lambda>file. Onload ''data:text/plain;base64,aGk='') extract gtZero
           \<lparr>file_name = ''notes.txt'', file_type = ''text/plain''\<rparr> st) = []"
  by (simp add: acceptedTypes_def App_handleFileChange_def completeProcessing_def
      reader_onload_def element_def processFile_def Let_def)

end
